theory Spec2Isabelle
  imports Complex_Main
begin

section \<open>The numeric arrays the trainers work on\<close>

text \<open>
  Both notebooks define a small estimator class on top of numpy. The arrays are modelled
  with their shapes, and every operation that numpy refuses is a branch returning an
  error. Array entries are numpy float64 values in the notebooks; here they are real
  numbers, so every statement below is about exact arithmetic: rounding, overflow,
  saturation, infinities and NaN are not represented.
\<close>

datatype error = ValueError | ZeroDivisionError | AttributeError

type_synonym vec = "real list"

text \<open>A 2-D array: its shape \<open>(nrows, ncols)\<close> and its rows.\<close>

record mat =
  nrows :: nat
  ncols :: nat
  rows :: "real list list"

definition wf_mat :: "mat \<Rightarrow> bool" where
  "wf_mat X = (length (rows X) = nrows X \<and> list_all (\<lambda>r. length r = ncols X) (rows X))"

definition bindE :: "error + 'a \<Rightarrow> ('a \<Rightarrow> error + 'b) \<Rightarrow> error + 'b" where
  "bindE r f = (case r of Inl e \<Rightarrow> Inl e | Inr x \<Rightarrow> f x)"

definition dot :: "vec \<Rightarrow> vec \<Rightarrow> real" where
  "dot xs ys = sum_list (map2 (*) xs ys)"

text \<open>\<^verbatim>\<open>X @ v\<close> for a 2-D \<open>X\<close> and a 1-D \<open>v\<close>: numpy raises ValueError unless the
  column count of \<open>X\<close> is the length of \<open>v\<close>.\<close>

definition matvec :: "mat \<Rightarrow> vec \<Rightarrow> error + vec" where
  "matvec X v = (if ncols X \<noteq> length v then Inl ValueError
                 else Inr (map (\<lambda>r. dot r v) (rows X)))"

text \<open>\<^verbatim>\<open>X.T\<close>\<close>

definition transpose_mat :: "mat \<Rightarrow> mat" where
  "transpose_mat X = \<lparr>nrows = ncols X, ncols = nrows X,
     rows = map (\<lambda>j. map (\<lambda>r. r ! j) (rows X)) [0..<ncols X]\<rparr>"

text \<open>\<^verbatim>\<open>c * X\<close> for a scalar \<open>c\<close>\<close>

definition scale_mat :: "real \<Rightarrow> mat \<Rightarrow> mat" where
  "scale_mat c X = X\<lparr>rows := map (map (\<lambda>x. c * x)) (rows X)\<rparr>"

text \<open>An elementwise binary operation on two 1-D arrays, with numpy's broadcasting: equal
  lengths combine pointwise, an array of length 1 is stretched to the other's length, and
  any other pair of lengths raises ValueError.\<close>

definition broadcast2 :: "(real \<Rightarrow> real \<Rightarrow> real) \<Rightarrow> vec \<Rightarrow> vec \<Rightarrow> error + vec" where
  "broadcast2 f xs ys =
     (if length xs = length ys then Inr (map2 f xs ys)
      else if length ys = 1 then Inr (map (\<lambda>x. f x (hd ys)) xs)
      else if length xs = 1 then Inr (map (\<lambda>y. f (hd xs) y) ys)
      else Inl ValueError)"

text \<open>\<^verbatim>\<open>a -= g\<close> on 1-D arrays: the result keeps the shape of \<open>a\<close>, so \<open>g\<close> must have the
  length of \<open>a\<close> or length 1.\<close>

definition isub :: "vec \<Rightarrow> vec \<Rightarrow> error + vec" where
  "isub a g =
     (if length g = length a then Inr (map2 (-) a g)
      else if length g = 1 then Inr (map (\<lambda>x. x - hd g) a)
      else Inl ValueError)"

text \<open>\<^verbatim>\<open>np.mean\<close> of a 1-D array. On an empty array numpy returns NaN with a warning; the
  model returns 0 there. The trainers take the mean of an empty array only in an
  iteration that raises afterwards, so that value is never part of a result.\<close>

definition mean :: "vec \<Rightarrow> real" where
  "mean xs = sum_list xs / real (length xs)"

definition square :: "vec \<Rightarrow> vec" where
  "square xs = map (\<lambda>x. x * x) xs"

section \<open>The estimator object\<close>

text \<open>
  Both classes have the same attributes. \<open>coef\<close> and \<open>bias\<close> do not exist on a freshly
  constructed object (\<open>None\<close>): \<^verbatim>\<open>__init__\<close> stores the two hyperparameters only, and
  \<^verbatim>\<open>initialize\<close> creates the parameters.
\<close>

record model =
  max_iterations :: int
  learning_rate :: real
  coef :: "vec option"
  bias :: "real option"

definition init :: "int \<Rightarrow> real \<Rightarrow> model" where
  "init mi lr = \<lparr>max_iterations = mi, learning_rate = lr, coef = None, bias = None\<rparr>"

definition initialize :: "model \<Rightarrow> nat \<Rightarrow> model" where
  "initialize self num_features =
     self\<lparr>coef := Some (replicate num_features 0), bias := Some 0\<rparr>"

section \<open>LinearRegression\<close>

text \<open>
  One pass of the loop body of \<^verbatim>\<open>LinearRegression.fit\<close>, \<open>m\<close> being the row count read
  from \<^verbatim>\<open>X.shape\<close> on entry. It returns the loss it appends and the updated object, or the
  exception. Every exception of the body is raised before the body assigns anything.
  \<^verbatim>\<open>self.learning_rate / m * X.T @ (preds - y)\<close> associates to the left: the transposed
  matrix is scaled first and then multiplied with the residual; the division is Python's
  float by int division, which raises on \<open>m = 0\<close>. (That is so for a Python number as
  learning rate, which the constructor's default is; a numpy scalar would divide to
  infinity instead. No result below depends on the \<open>m = 0\<close> branch.)
\<close>

definition LinearRegression_iteration ::
  "nat \<Rightarrow> mat \<Rightarrow> vec \<Rightarrow> model \<Rightarrow> error + (real \<times> model)" where
  "LinearRegression_iteration m X y self =
     (case coef self of None \<Rightarrow> Inl AttributeError | Some w \<Rightarrow>
      bindE (matvec X w) (\<lambda>xw.
      case bias self of None \<Rightarrow> Inl AttributeError | Some b \<Rightarrow>
      let preds = map (\<lambda>v. v + b) xw in
      bindE (broadcast2 (-) preds y) (\<lambda>r.
      let loss = 0.5 * mean (square r) in
      if m = 0 then Inl ZeroDivisionError else
      bindE (matvec (scale_mat (learning_rate self / real m) (transpose_mat X)) r) (\<lambda>g.
      bindE (isub w g) (\<lambda>w'.
      Inr (loss, self\<lparr>coef := Some w', bias := Some (b - learning_rate self * mean r)\<rparr>))))))"

text \<open>The \<^verbatim>\<open>for\<close> loop, with the iterations still to run, the object and the local list
  \<^verbatim>\<open>losses\<close>. An exception leaves the object as the last completed pass left it.\<close>

fun LinearRegression_loop ::
  "nat \<Rightarrow> nat \<Rightarrow> mat \<Rightarrow> vec \<Rightarrow> model \<Rightarrow> real list \<Rightarrow> (error + real list) \<times> model" where
  "LinearRegression_loop 0 m X y self losses = (Inr losses, self)"
| "LinearRegression_loop (Suc k) m X y self losses =
     (case LinearRegression_iteration m X y self of
        Inl e \<Rightarrow> (Inl e, self)
      | Inr (loss, self') \<Rightarrow> LinearRegression_loop k m X y self' (losses @ [loss]))"

text \<open>\<^verbatim>\<open>fit\<close> returns \<^verbatim>\<open>losses, self.coef, self.bias\<close>; the second component is the object
  afterwards. \<^verbatim>\<open>range\<close> of a negative count is empty.\<close>

definition LinearRegression_fit ::
  "model \<Rightarrow> mat \<Rightarrow> vec \<Rightarrow> (error + (real list \<times> vec \<times> real)) \<times> model" where
  "LinearRegression_fit self X y =
     (let m = nrows X; n = ncols X;
          self0 = initialize self n
      in case LinearRegression_loop (nat (max_iterations self0)) m X y self0 [] of
           (Inl e, self') \<Rightarrow> (Inl e, self')
         | (Inr losses, self') \<Rightarrow>
             (case (coef self', bias self') of
                (Some w, Some b) \<Rightarrow> (Inr (losses, w, b), self')
              | _ \<Rightarrow> (Inl AttributeError, self')))"

definition LinearRegression_predict :: "model \<Rightarrow> mat \<Rightarrow> error + vec" where
  "LinearRegression_predict self X =
     (case coef self of None \<Rightarrow> Inl AttributeError | Some w \<Rightarrow>
      bindE (matvec X w) (\<lambda>xw.
      case bias self of None \<Rightarrow> Inl AttributeError | Some b \<Rightarrow>
      Inr (map (\<lambda>v. v + b) xw)))"

section \<open>LogisticRegression\<close>

text \<open>\<^verbatim>\<open>sigmoid\<close>, over the reals. The float64 function the notebook runs agrees with it up
  to rounding only: it returns exactly 1.0 once \<open>exp (- z)\<close> falls below half an ulp of 1, and
  exactly 0.0 once \<open>exp (- z)\<close> overflows. Nothing that separates the open interval
  \<open>(0, 1)\<close> from the closed one can therefore be read off this definition.\<close>

definition sigmoid :: "vec \<Rightarrow> vec" where
  "sigmoid z = map (\<lambda>t. 1 / (1 + exp (- t))) z"

text \<open>
  The loop body of \<^verbatim>\<open>LogisticRegression.fit\<close>. The loss line combines \<open>y\<close> with the
  predictions before the residual is formed, so a broadcasting failure is raised there.
\<close>

definition LogisticRegression_iteration ::
  "nat \<Rightarrow> mat \<Rightarrow> vec \<Rightarrow> model \<Rightarrow> error + (real \<times> model)" where
  "LogisticRegression_iteration m X y self =
     (case coef self of None \<Rightarrow> Inl AttributeError | Some w \<Rightarrow>
      bindE (matvec X w) (\<lambda>xw.
      case bias self of None \<Rightarrow> Inl AttributeError | Some b \<Rightarrow>
      let preds = sigmoid (map (\<lambda>v. v + b) xw) in
      bindE (broadcast2 (*) y (map ln preds)) (\<lambda>t1.
      bindE (broadcast2 (*) (map (\<lambda>v. 1 - v) y) (map ln (map (\<lambda>p. 1 - p) preds))) (\<lambda>t2.
      bindE (broadcast2 (+) t1 t2) (\<lambda>t.
      let loss = - mean t in
      if m = 0 then Inl ZeroDivisionError else
      bindE (broadcast2 (-) preds y) (\<lambda>r.
      bindE (matvec (scale_mat (learning_rate self / real m) (transpose_mat X)) r) (\<lambda>g.
      bindE (isub w g) (\<lambda>w'.
      Inr (loss, self\<lparr>coef := Some w', bias := Some (b - learning_rate self * mean r)\<rparr>)))))))))"

fun LogisticRegression_loop ::
  "nat \<Rightarrow> nat \<Rightarrow> mat \<Rightarrow> vec \<Rightarrow> model \<Rightarrow> real list \<Rightarrow> (error + real list) \<times> model" where
  "LogisticRegression_loop 0 m X y self losses = (Inr losses, self)"
| "LogisticRegression_loop (Suc k) m X y self losses =
     (case LogisticRegression_iteration m X y self of
        Inl e \<Rightarrow> (Inl e, self)
      | Inr (loss, self') \<Rightarrow> LogisticRegression_loop k m X y self' (losses @ [loss]))"

definition LogisticRegression_fit ::
  "model \<Rightarrow> mat \<Rightarrow> vec \<Rightarrow> (error + (real list \<times> vec \<times> real)) \<times> model" where
  "LogisticRegression_fit self X y =
     (let m = nrows X; n = ncols X;
          self0 = initialize self n
      in case LogisticRegression_loop (nat (max_iterations self0)) m X y self0 [] of
           (Inl e, self') \<Rightarrow> (Inl e, self')
         | (Inr losses, self') \<Rightarrow>
             (case (coef self', bias self') of
                (Some w, Some b) \<Rightarrow> (Inr (losses, w, b), self')
              | _ \<Rightarrow> (Inl AttributeError, self')))"

definition LogisticRegression_predict :: "model \<Rightarrow> mat \<Rightarrow> error + vec" where
  "LogisticRegression_predict self X =
     (case coef self of None \<Rightarrow> Inl AttributeError | Some w \<Rightarrow>
      bindE (matvec X w) (\<lambda>xw.
      case bias self of None \<Rightarrow> Inl AttributeError | Some b \<Rightarrow>
      Inr (sigmoid (map (\<lambda>v. v + b) xw))))"

section \<open>The iterations as the specification words them\<close>

text \<open>
  The definitions of this section follow the specification's description of the two
  trainers, entry by entry, and are what the code above is compared with. They are
  written with indexed sums and do not use the array operations of the first section.
\<close>

text \<open>The linear score \<open>X\<cdot>w + b\<close>, a vector of length \<open>m\<close>.\<close>

definition spec_scores :: "mat \<Rightarrow> vec \<Rightarrow> real \<Rightarrow> vec" where
  "spec_scores X w b =
     map (\<lambda>i. (\<Sum>j = 0..<ncols X. rows X ! i ! j * w ! j) + b) [0..<nrows X]"

text \<open>The residual: predictions minus targets.\<close>

definition spec_residual :: "vec \<Rightarrow> vec \<Rightarrow> vec" where
  "spec_residual yhat y = map (\<lambda>i. yhat ! i - y ! i) [0..<length yhat]"

text \<open>The parameter update as a function of the residual: \<open>w\<close> loses
  \<open>(learning_rate / m) \<times> X\<^sup>T\<cdot>res\<close> and \<open>b\<close> loses \<open>learning_rate \<times> mean res\<close>.\<close>

definition spec_gd_update :: "real \<Rightarrow> mat \<Rightarrow> vec \<Rightarrow> vec \<times> real \<Rightarrow> vec \<times> real" where
  "spec_gd_update lr X res = (\<lambda>(w, b).
     (map (\<lambda>j. w ! j - lr / real (nrows X) * (\<Sum>i = 0..<nrows X. rows X ! i ! j * res ! i))
          [0..<ncols X],
      b - lr * ((\<Sum>i = 0..<nrows X. res ! i) / real (nrows X))))"

text \<open>Linear trainer: the loss, half the mean of the squared residual, the update, and
  one iteration on the triple of loss trace, weights and bias.\<close>

definition spec_linear_loss :: "mat \<Rightarrow> vec \<Rightarrow> vec \<times> real \<Rightarrow> real" where
  "spec_linear_loss X y = (\<lambda>(w, b).
     0.5 * ((\<Sum>i = 0..<nrows X. (spec_residual (spec_scores X w b) y ! i)\<^sup>2) / real (nrows X)))"

definition spec_linear_update :: "real \<Rightarrow> mat \<Rightarrow> vec \<Rightarrow> vec \<times> real \<Rightarrow> vec \<times> real" where
  "spec_linear_update lr X y = (\<lambda>(w, b).
     spec_gd_update lr X (spec_residual (spec_scores X w b) y) (w, b))"

definition spec_linear_step ::
  "real \<Rightarrow> mat \<Rightarrow> vec \<Rightarrow> real list \<times> vec \<times> real \<Rightarrow> real list \<times> vec \<times> real" where
  "spec_linear_step lr X y = (\<lambda>(losses, wb).
     (losses @ [spec_linear_loss X y wb], spec_linear_update lr X y wb))"

text \<open>Logistic trainer: the predictions \<open>g (X\<cdot>w + b)\<close> with \<open>g z = 1 / (1 + exp (- z))\<close>,
  the loss \<open>- mean (y \<times> log p + (1 - y) \<times> log (1 - p))\<close> of the predictions \<open>p\<close>, the update
  and one iteration.\<close>

definition spec_logistic_predictions :: "mat \<Rightarrow> vec \<Rightarrow> real \<Rightarrow> vec" where
  "spec_logistic_predictions X w b = map (\<lambda>z. 1 / (1 + exp (- z))) (spec_scores X w b)"

definition spec_logistic_loss :: "mat \<Rightarrow> vec \<Rightarrow> vec \<times> real \<Rightarrow> real" where
  "spec_logistic_loss X y = (\<lambda>(w, b).
     - ((\<Sum>i = 0..<nrows X.
           y ! i * ln (spec_logistic_predictions X w b ! i)
           + (1 - y ! i) * ln (1 - spec_logistic_predictions X w b ! i)) / real (nrows X)))"

definition spec_logistic_update :: "real \<Rightarrow> mat \<Rightarrow> vec \<Rightarrow> vec \<times> real \<Rightarrow> vec \<times> real" where
  "spec_logistic_update lr X y = (\<lambda>(w, b).
     spec_gd_update lr X (spec_residual (spec_logistic_predictions X w b) y) (w, b))"

definition spec_logistic_step ::
  "real \<Rightarrow> mat \<Rightarrow> vec \<Rightarrow> real list \<times> vec \<times> real \<Rightarrow> real list \<times> vec \<times> real" where
  "spec_logistic_step lr X y = (\<lambda>(losses, wb).
     (losses @ [spec_logistic_loss X y wb], spec_logistic_update lr X y wb))"

section \<open>A learning-rate bound for the linear trainer\<close>

text \<open>A bound that depends on the design matrix only: twice the row count over the sum of
  the squared entries of \<open>X\<close> extended by a column of ones. Below it a gradient step cannot
  increase the squared-error loss.\<close>

definition lr_bound :: "mat \<Rightarrow> real" where
  "lr_bound X = 2 * real (nrows X) /
     (\<Sum>i = 0..<nrows X. (\<Sum>j = 0..<ncols X. (rows X ! i ! j)\<^sup>2) + 1)"

section \<open>The code on well-shaped inputs\<close>

text \<open>
  A design matrix is well-shaped when its rows agree with its shape; the target vector has
  one entry per row. On such inputs no operation of either loop body raises, and each pass
  computes what the specification's iteration computes.
\<close>

lemma dot_sum: "length xs = length ys \<Longrightarrow> dot xs ys = (\<Sum>i = 0..<length xs. xs ! i * ys ! i)"
  unfolding dot_def by (simp add: sum_list_sum_nth)

lemma wf_mat_rows: "wf_mat X \<Longrightarrow> length (rows X) = nrows X"
  by (simp add: wf_mat_def)

lemma wf_mat_row: "wf_mat X \<Longrightarrow> i < nrows X \<Longrightarrow> length (rows X ! i) = ncols X"
  by (auto simp: wf_mat_def list_all_length)

lemma bindE_simps [simp]: "bindE (Inr x) f = f x" "bindE (Inl e) f = Inl e"
  by (simp_all add: bindE_def)

lemma matvec_scores:
  assumes "wf_mat X" "length w = ncols X"
  shows "matvec X w = Inr (map (\<lambda>i. \<Sum>j = 0..<ncols X. rows X ! i ! j * w ! j) [0..<nrows X])"
proof -
  have "map (\<lambda>r. dot r w) (rows X)
        = map (\<lambda>i. dot (rows X ! i) w) [0..<length (rows X)]"
    by (rule nth_equalityI) simp_all
  also have "\<dots> = map (\<lambda>i. \<Sum>j = 0..<ncols X. rows X ! i ! j * w ! j) [0..<nrows X]"
    using assms by (simp add: wf_mat_rows wf_mat_row dot_sum)
  finally show ?thesis using assms by (simp add: matvec_def)
qed

lemma add_bias_scores:
  "map ((\<lambda>v. v + b) \<circ> (\<lambda>i. \<Sum>j = 0..<ncols X. rows X ! i ! j * w ! j)) [0..<nrows X]
   = spec_scores X w b"
  by (simp add: spec_scores_def)

lemma map2_nth:
  "length xs = length ys \<Longrightarrow> map2 f xs ys = map (\<lambda>i. f (xs ! i) (ys ! i)) [0..<length xs]"
  by (rule nth_equalityI) simp_all

lemma sub_residual:
  "length p = length y \<Longrightarrow> broadcast2 (-) p y = Inr (spec_residual p y)"
  unfolding broadcast2_def spec_residual_def using map2_nth [of p y "(-)"] by simp

lemma matvec_gradient:
  assumes "wf_mat X" "length r = nrows X"
  shows "matvec (scale_mat c (transpose_mat X)) r =
         Inr (map (\<lambda>j. c * (\<Sum>i = 0..<nrows X. rows X ! i ! j * r ! i)) [0..<ncols X])"
proof -
  have "\<And>j. dot (map (\<lambda>x. c * x) (map (\<lambda>r. r ! j) (rows X))) r
        = c * (\<Sum>i = 0..<nrows X. rows X ! i ! j * r ! i)"
    using assms by (simp add: wf_mat_rows dot_sum sum_distrib_left mult.assoc)
  then show ?thesis
    using assms by (simp add: matvec_def scale_mat_def transpose_mat_def)
qed

lemma mean_sum: "mean xs = (\<Sum>i = 0..<length xs. xs ! i) / real (length xs)"
  by (simp add: mean_def sum_list_sum_nth)

lemma mean_square_sum: "mean (square xs) = (\<Sum>i = 0..<length xs. (xs ! i)\<^sup>2) / real (length xs)"
  by (simp add: mean_def square_def sum_list_sum_nth power2_eq_square)

lemma length_spec_scores [simp]: "length (spec_scores X w b) = nrows X"
  by (simp add: spec_scores_def)

lemma length_spec_residual [simp]: "length (spec_residual p y) = length p"
  by (simp add: spec_residual_def)

lemma isub_gradient:
  "length w = n \<Longrightarrow> isub w (map g [0..<n]) = Inr (map (\<lambda>j. w ! j - g j) [0..<n])"
  unfolding isub_def by (simp, intro nth_equalityI) simp_all

lemma linear_iteration_valid:
  assumes "wf_mat X" "length y = nrows X" "0 < nrows X"
    and "coef self = Some w" "bias self = Some b" "length w = ncols X"
  shows "LinearRegression_iteration (nrows X) X y self =
         Inr (spec_linear_loss X y (w, b),
              self\<lparr>coef := Some (fst (spec_linear_update (learning_rate self) X y (w, b))),
                   bias := Some (snd (spec_linear_update (learning_rate self) X y (w, b)))\<rparr>)"
proof -
  define r where "r = spec_residual (spec_scores X w b) y"
  have len_r: "length r = nrows X" by (simp add: r_def)
  have res: "broadcast2 (-) (spec_scores X w b) y = Inr r"
    unfolding r_def using assms by (intro sub_residual) simp
  have loss: "mean (square r) / 2 = spec_linear_loss X y (w, b)"
    by (simp add: mean_square_sum spec_linear_loss_def len_r r_def)
  have upd: "spec_linear_update (learning_rate self) X y (w, b) =
        (map (\<lambda>j. w ! j - learning_rate self / real (nrows X) *
               (\<Sum>i = 0..<nrows X. rows X ! i ! j * r ! i)) [0..<ncols X],
         b - learning_rate self * mean r)"
    by (simp add: spec_linear_update_def spec_gd_update_def mean_sum len_r r_def)
  show ?thesis
    unfolding LinearRegression_iteration_def upd
    using assms len_r
    by (simp add: matvec_scores add_bias_scores res loss matvec_gradient isub_gradient
        del: mult_cancel_left)
qed


lemma trace_funpow:
  "((\<lambda>(losses, wb). (losses @ [L wb], U wb)) ^^ k) (ls, wb)
   = (ls @ map (\<lambda>i. L ((U ^^ i) wb)) [0..<k], (U ^^ k) wb)"
  by (induction k) simp_all

lemma spec_linear_step_funpow:
  "(spec_linear_step lr X y ^^ k) (ls, wb)
   = (ls @ map (\<lambda>i. spec_linear_loss X y ((spec_linear_update lr X y ^^ i) wb)) [0..<k],
      (spec_linear_update lr X y ^^ k) wb)"
  unfolding spec_linear_step_def by (rule trace_funpow)

lemma length_spec_gd_update [simp]: "length (fst (spec_gd_update lr X r wb)) = ncols X"
  by (cases wb) (simp add: spec_gd_update_def)

lemma length_spec_linear_update [simp]: "length (fst (spec_linear_update lr X y wb)) = ncols X"
  by (cases wb) (simp add: spec_linear_update_def)

lemma linear_loop_valid:
  assumes "wf_mat X" "length y = nrows X" "0 < nrows X"
  shows "coef self = Some w \<Longrightarrow> bias self = Some b \<Longrightarrow> length w = ncols X \<Longrightarrow>
         LinearRegression_loop k (nrows X) X y self ls =
           (Inr (fst ((spec_linear_step (learning_rate self) X y ^^ k) (ls, w, b))),
            self\<lparr>coef := Some (fst (snd ((spec_linear_step (learning_rate self) X y ^^ k) (ls, w, b)))),
                 bias := Some (snd (snd ((spec_linear_step (learning_rate self) X y ^^ k) (ls, w, b))))\<rparr>)"
proof (induction k arbitrary: self w b ls)
  case 0
  then show ?case by simp
next
  case (Suc k)
  let ?wb = "spec_linear_update (learning_rate self) X y (w, b)"
  let ?self = "self\<lparr>coef := Some (fst ?wb), bias := Some (snd ?wb)\<rparr>"
  have it: "LinearRegression_iteration (nrows X) X y self = Inr (spec_linear_loss X y (w, b), ?self)"
    using assms Suc.prems by (rule linear_iteration_valid)
  have ih: "LinearRegression_loop k (nrows X) X y ?self (ls @ [spec_linear_loss X y (w, b)]) =
      (Inr (fst ((spec_linear_step (learning_rate ?self) X y ^^ k) (ls @ [spec_linear_loss X y (w, b)], fst ?wb, snd ?wb))),
       ?self\<lparr>coef := Some (fst (snd ((spec_linear_step (learning_rate ?self) X y ^^ k) (ls @ [spec_linear_loss X y (w, b)], fst ?wb, snd ?wb)))),
              bias := Some (snd (snd ((spec_linear_step (learning_rate ?self) X y ^^ k) (ls @ [spec_linear_loss X y (w, b)], fst ?wb, snd ?wb))))\<rparr>)"
    by (rule Suc.IH) simp_all
  have step: "spec_linear_step (learning_rate self) X y (ls, w, b)
              = (ls @ [spec_linear_loss X y (w, b)], fst ?wb, snd ?wb)"
    by (simp add: spec_linear_step_def)
  show ?case
    by (simp add: it ih funpow_Suc_right step del: funpow.simps)
qed

lemma linear_fit_valid:
  assumes "wf_mat X" "length y = nrows X" "0 < nrows X"
  shows "LinearRegression_fit self X y =
     (let st = (spec_linear_step (learning_rate self) X y ^^ nat (max_iterations self))
                 ([], replicate (ncols X) 0, 0)
      in (Inr st, self\<lparr>coef := Some (fst (snd st)), bias := Some (snd (snd st))\<rparr>))"
proof -
  have "LinearRegression_loop (nat (max_iterations self)) (nrows X) X y (initialize self (ncols X)) [] =
     (Inr (fst ((spec_linear_step (learning_rate (initialize self (ncols X))) X y ^^ nat (max_iterations self)) ([], replicate (ncols X) 0, 0))),
      (initialize self (ncols X))\<lparr>coef := Some (fst (snd ((spec_linear_step (learning_rate (initialize self (ncols X))) X y ^^ nat (max_iterations self)) ([], replicate (ncols X) 0, 0)))),
           bias := Some (snd (snd ((spec_linear_step (learning_rate (initialize self (ncols X))) X y ^^ nat (max_iterations self)) ([], replicate (ncols X) 0, 0))))\<rparr>)"
    using assms by (rule linear_loop_valid) (simp_all add: initialize_def)
  then show ?thesis
    by (simp add: LinearRegression_fit_def Let_def initialize_def)
qed


lemma broadcast2_same:
  "length xs = length ys \<Longrightarrow>
   broadcast2 f xs ys = Inr (map (\<lambda>i. f (xs ! i) (ys ! i)) [0..<length xs])"
  unfolding broadcast2_def using map2_nth [of xs ys f] by simp

lemma length_spec_logistic_predictions [simp]:
  "length (spec_logistic_predictions X w b) = nrows X"
  by (simp add: spec_logistic_predictions_def)

lemma sigmoid_scores:
  "sigmoid (spec_scores X w b) = spec_logistic_predictions X w b"
  by (simp add: sigmoid_def spec_logistic_predictions_def)

lemma logistic_loss_terms:
  assumes "length y = nrows X" and lp: "length p = nrows X"
  shows "broadcast2 (*) y (map ln p) = Inr (map (\<lambda>i. y ! i * ln (p ! i)) [0..<nrows X])"
    and "broadcast2 (*) (map (\<lambda>v. 1 - v) y) (map ln (map (\<lambda>q. 1 - q) p))
         = Inr (map (\<lambda>i. (1 - y ! i) * ln (1 - p ! i)) [0..<nrows X])"
    and "broadcast2 (+) (map (\<lambda>i. y ! i * ln (p ! i)) [0..<nrows X])
           (map (\<lambda>i. (1 - y ! i) * ln (1 - p ! i)) [0..<nrows X])
         = Inr (map (\<lambda>i. y ! i * ln (p ! i) + (1 - y ! i) * ln (1 - p ! i)) [0..<nrows X])"
proof -
  show "broadcast2 (*) y (map ln p) = Inr (map (\<lambda>i. y ! i * ln (p ! i)) [0..<nrows X])"
    using assms(1) lp by (subst broadcast2_same) simp_all
  show "broadcast2 (*) (map (\<lambda>v. 1 - v) y) (map ln (map (\<lambda>q. 1 - q) p))
         = Inr (map (\<lambda>i. (1 - y ! i) * ln (1 - p ! i)) [0..<nrows X])"
    using assms(1) lp by (subst broadcast2_same) simp_all
  show "broadcast2 (+) (map (\<lambda>i. y ! i * ln (p ! i)) [0..<nrows X])
           (map (\<lambda>i. (1 - y ! i) * ln (1 - p ! i)) [0..<nrows X])
         = Inr (map (\<lambda>i. y ! i * ln (p ! i) + (1 - y ! i) * ln (1 - p ! i)) [0..<nrows X])"
    by (subst broadcast2_same) simp_all
qed

lemma logistic_iteration_valid:
  assumes "wf_mat X" "length y = nrows X" "0 < nrows X"
    and "coef self = Some w" "bias self = Some b" "length w = ncols X"
  shows "LogisticRegression_iteration (nrows X) X y self =
         Inr (spec_logistic_loss X y (w, b),
              self\<lparr>coef := Some (fst (spec_logistic_update (learning_rate self) X y (w, b))),
                   bias := Some (snd (spec_logistic_update (learning_rate self) X y (w, b)))\<rparr>)"
proof -
  define p where "p = spec_logistic_predictions X w b"
  define r where "r = spec_residual p y"
  have len_r: "length r = nrows X" by (simp add: r_def p_def)
  have res: "broadcast2 (-) p y = Inr r"
    unfolding r_def using assms by (intro sub_residual) (simp add: p_def)
  have loss: "- mean (map (\<lambda>i. y ! i * ln (p ! i) + (1 - y ! i) * ln (1 - p ! i)) [0..<nrows X])
              = spec_logistic_loss X y (w, b)"
    by (simp add: mean_def spec_logistic_loss_def p_def sum_list_sum_nth)
  have upd: "spec_logistic_update (learning_rate self) X y (w, b) =
        (map (\<lambda>j. w ! j - learning_rate self / real (nrows X) *
               (\<Sum>i = 0..<nrows X. rows X ! i ! j * r ! i)) [0..<ncols X],
         b - learning_rate self * mean r)"
    by (simp add: spec_logistic_update_def spec_gd_update_def mean_sum len_r r_def p_def)
  have "length p = nrows X" by (simp add: p_def)
  note terms = logistic_loss_terms [OF assms(2) this, simplified]
  show ?thesis
    unfolding LogisticRegression_iteration_def upd
    using assms len_r
    by (simp add: matvec_scores add_bias_scores sigmoid_scores p_def [symmetric] terms
        res loss matvec_gradient isub_gradient del: mult_cancel_left)
qed

lemma spec_logistic_step_funpow:
  "(spec_logistic_step lr X y ^^ k) (ls, wb)
   = (ls @ map (\<lambda>i. spec_logistic_loss X y ((spec_logistic_update lr X y ^^ i) wb)) [0..<k],
      (spec_logistic_update lr X y ^^ k) wb)"
  unfolding spec_logistic_step_def by (rule trace_funpow)

lemma length_spec_logistic_update [simp]: "length (fst (spec_logistic_update lr X y wb)) = ncols X"
  by (cases wb) (simp add: spec_logistic_update_def)

lemma logistic_loop_valid:
  assumes "wf_mat X" "length y = nrows X" "0 < nrows X"
  shows "coef self = Some w \<Longrightarrow> bias self = Some b \<Longrightarrow> length w = ncols X \<Longrightarrow>
         LogisticRegression_loop k (nrows X) X y self ls =
           (Inr (fst ((spec_logistic_step (learning_rate self) X y ^^ k) (ls, w, b))),
            self\<lparr>coef := Some (fst (snd ((spec_logistic_step (learning_rate self) X y ^^ k) (ls, w, b)))),
                 bias := Some (snd (snd ((spec_logistic_step (learning_rate self) X y ^^ k) (ls, w, b))))\<rparr>)"
proof (induction k arbitrary: self w b ls)
  case 0
  then show ?case by simp
next
  case (Suc k)
  let ?wb = "spec_logistic_update (learning_rate self) X y (w, b)"
  let ?self = "self\<lparr>coef := Some (fst ?wb), bias := Some (snd ?wb)\<rparr>"
  let ?ls = "ls @ [spec_logistic_loss X y (w, b)]"
  have it: "LogisticRegression_iteration (nrows X) X y self = Inr (spec_logistic_loss X y (w, b), ?self)"
    using assms Suc.prems by (rule logistic_iteration_valid)
  have ih: "LogisticRegression_loop k (nrows X) X y ?self ?ls =
      (Inr (fst ((spec_logistic_step (learning_rate ?self) X y ^^ k) (?ls, fst ?wb, snd ?wb))),
       ?self\<lparr>coef := Some (fst (snd ((spec_logistic_step (learning_rate ?self) X y ^^ k) (?ls, fst ?wb, snd ?wb)))),
              bias := Some (snd (snd ((spec_logistic_step (learning_rate ?self) X y ^^ k) (?ls, fst ?wb, snd ?wb))))\<rparr>)"
    by (rule Suc.IH) simp_all
  have step: "spec_logistic_step (learning_rate self) X y (ls, w, b) = (?ls, fst ?wb, snd ?wb)"
    by (simp add: spec_logistic_step_def)
  show ?case
    by (simp add: it ih funpow_Suc_right step del: funpow.simps)
qed

lemma logistic_fit_valid:
  assumes "wf_mat X" "length y = nrows X" "0 < nrows X"
  shows "LogisticRegression_fit self X y =
     (let st = (spec_logistic_step (learning_rate self) X y ^^ nat (max_iterations self))
                 ([], replicate (ncols X) 0, 0)
      in (Inr st, self\<lparr>coef := Some (fst (snd st)), bias := Some (snd (snd st))\<rparr>))"
proof -
  let ?s0 = "initialize self (ncols X)"
  let ?st = "(spec_logistic_step (learning_rate ?s0) X y ^^ nat (max_iterations self)) ([], replicate (ncols X) 0, 0)"
  have "LogisticRegression_loop (nat (max_iterations self)) (nrows X) X y ?s0 [] =
     (Inr (fst ?st), ?s0\<lparr>coef := Some (fst (snd ?st)), bias := Some (snd (snd ?st))\<rparr>)"
    using assms by (rule logistic_loop_valid) (simp_all add: initialize_def)
  then show ?thesis
    by (simp add: LogisticRegression_fit_def Let_def initialize_def)
qed

subsection \<open>The zero initialisation of the logistic trainer\<close>

lemma spec_scores_zero: "spec_scores X (replicate (ncols X) 0) 0 = replicate (nrows X) 0"
  unfolding spec_scores_def by (intro nth_equalityI) simp_all

lemma spec_logistic_predictions_zero:
  "spec_logistic_predictions X (replicate (ncols X) 0) 0 = replicate (nrows X) (1 / 2)"
  by (simp add: spec_logistic_predictions_def spec_scores_zero)

lemma spec_logistic_loss_zero:
  assumes "0 < nrows X"
  shows "spec_logistic_loss X y (replicate (ncols X) 0, 0) = ln 2"
proof -
  have "(\<Sum>i = 0..<nrows X. y ! i * ln (replicate (nrows X) (1 / 2 :: real) ! i)
           + (1 - y ! i) * ln (1 - replicate (nrows X) (1 / 2 :: real) ! i))
        = (\<Sum>i = 0..<nrows X. - ln 2)"
    by (rule sum.cong) (simp_all add: ln_div algebra_simps)
  then show ?thesis
    using assms by (simp add: spec_logistic_loss_def spec_logistic_predictions_zero)
qed

subsection \<open>Parameters after any successful fit, and predict\<close>

lemma bindE_Inr_iff: "bindE r f = Inr v \<longleftrightarrow> (\<exists>x. r = Inr x \<and> f x = Inr v)"
  by (cases r) simp_all

lemma isub_length: "isub a g = Inr a' \<Longrightarrow> length a' = length a"
  by (auto simp: isub_def split: if_splits)

lemma logistic_iteration_params:
  assumes "LogisticRegression_iteration m X y self = Inr (l, self')" "coef self = Some w"
  shows "\<exists>w' b'. coef self' = Some w' \<and> bias self' = Some b' \<and> length w' = length w"
  using assms unfolding LogisticRegression_iteration_def
  by (auto simp: bindE_Inr_iff Let_def split: option.splits if_splits dest: isub_length)

lemma logistic_loop_params:
  "LogisticRegression_loop k m X y self ls = (Inr ls', self') \<Longrightarrow>
   coef self = Some w \<Longrightarrow> bias self = Some b \<Longrightarrow>
   \<exists>w' b'. coef self' = Some w' \<and> bias self' = Some b' \<and> length w' = length w"
proof (induction k arbitrary: self ls w b)
  case 0
  then show ?case by simp
next
  case (Suc k)
  from Suc.prems(1) obtain l s1 where
    it: "LogisticRegression_iteration m X y self = Inr (l, s1)"
    and rest: "LogisticRegression_loop k m X y s1 (ls @ [l]) = (Inr ls', self')"
    by (auto split: sum.splits)
  from logistic_iteration_params [OF it Suc.prems(2)] obtain w1 b1 where
    s1: "coef s1 = Some w1" "bias s1 = Some b1" "length w1 = length w" by blast
  from Suc.IH [OF rest s1(1) s1(2)] s1(3) show ?case by simp
qed

lemma logistic_fit_params:
  assumes "fst (LogisticRegression_fit self X y) = Inr (ls, w, b)"
  shows "coef (snd (LogisticRegression_fit self X y)) = Some w
       \<and> bias (snd (LogisticRegression_fit self X y)) = Some b
       \<and> length w = ncols X"
proof -
  let ?s0 = "initialize self (ncols X)"
  obtain r s' where loop: "LogisticRegression_loop (nat (max_iterations ?s0)) (nrows X) X y ?s0 [] = (r, s')"
    by (cases "LogisticRegression_loop (nat (max_iterations ?s0)) (nrows X) X y ?s0 []")
  with assms obtain ls' where r: "r = Inr ls'"
    by (cases r) (simp_all add: LogisticRegression_fit_def Let_def)
  have "coef ?s0 = Some (replicate (ncols X) 0)" "bias ?s0 = Some 0"
    by (simp_all add: initialize_def)
  from logistic_loop_params [OF loop [unfolded r] this] obtain w' b' where
    p: "coef s' = Some w'" "bias s' = Some b'" "length w' = ncols X" by auto
  with assms loop r show ?thesis
    by (simp add: LogisticRegression_fit_def Let_def)
qed

lemma logistic_predict_valid:
  assumes "wf_mat X" "coef self = Some w" "bias self = Some b" "length w = ncols X"
  shows "LogisticRegression_predict self X = Inr (spec_logistic_predictions X w b)"
  using assms
  by (simp add: LogisticRegression_predict_def matvec_scores add_bias_scores sigmoid_scores)

lemma sigmoid_range: "0 < 1 / (1 + exp (- z :: real)) \<and> 1 / (1 + exp (- z)) < 1"
proof -
  have "0 < exp (- z)" by simp
  then show ?thesis by (simp add: add_pos_pos)
qed

lemma logistic_fit_example:
  "fst (LogisticRegression_fit (init 1 1) \<lparr>nrows = 1, ncols = 1, rows = [[1]]\<rparr> [1])
     = Inr ([ln 2], [1 / 2], 1 / 2)"
proof -
  have h: "wf_mat \<lparr>nrows = 1, ncols = 1, rows = [[1]]\<rparr>"
    "length [1 :: real] = nrows \<lparr>nrows = 1, ncols = 1, rows = [[1]]\<rparr>"
    "0 < nrows \<lparr>nrows = 1, ncols = 1, rows = [[1]]\<rparr>"
    by (simp_all add: wf_mat_def)
  from logistic_fit_valid [OF h, of "init 1 1"] show ?thesis
    by (simp add: init_def spec_logistic_step_def
        spec_logistic_loss_def spec_logistic_update_def spec_gd_update_def
        spec_logistic_predictions_def spec_scores_def spec_residual_def ln_div)
qed

text \<open>Over the reals the commented-out form \<^verbatim>\<open>np.exp(z) / (1 + np.exp(z))\<close> is the same
  function as the one \<^verbatim>\<open>sigmoid\<close> returns; the two differ in floating point only.\<close>

lemma sigmoid_forms_agree: "sigmoid z = map (\<lambda>t. exp t / (1 + exp t)) z"
proof -
  have "1 / (1 + exp (- t)) = exp t / (1 + exp t)" for t :: real
  proof -
    have "exp t / (1 + exp t) = exp t / (exp t * (exp (- t) + 1))"
      by (simp add: distrib_left exp_minus)
    also have "\<dots> = 1 / (1 + exp (- t))" by (simp add: add.commute)
    finally show ?thesis by simp
  qed
  then show ?thesis by (simp add: sigmoid_def)
qed

subsection \<open>Mismatched shapes\<close>

lemma linear_iteration_mismatch:
  assumes "wf_mat X" "coef self = Some w" "bias self = Some b" "length w = ncols X"
    and "length y \<noteq> nrows X" "length y \<noteq> 1"
  shows "LinearRegression_iteration (nrows X) X y self = Inl ValueError"
  using assms unfolding LinearRegression_iteration_def
  by (simp add: matvec_def broadcast2_def scale_mat_def transpose_mat_def wf_mat_rows Let_def)

lemma logistic_iteration_mismatch:
  assumes "wf_mat X" "coef self = Some w" "bias self = Some b" "length w = ncols X"
    and "length y \<noteq> nrows X" "length y \<noteq> 1"
  shows "LogisticRegression_iteration (nrows X) X y self = Inl ValueError"
  using assms unfolding LogisticRegression_iteration_def
  by (simp add: matvec_def broadcast2_def scale_mat_def transpose_mat_def wf_mat_rows Let_def
      sigmoid_def)

lemma predict_mismatch:
  assumes "coef self = Some w" "ncols X \<noteq> length w"
  shows "LinearRegression_predict self X = Inl ValueError"
    and "LogisticRegression_predict self X = Inl ValueError"
  using assms
  by (simp_all add: LinearRegression_predict_def LogisticRegression_predict_def matvec_def)

lemma fit_mismatch:
  assumes "wf_mat X" "0 < max_iterations self" "length y \<noteq> nrows X" "length y \<noteq> 1"
  shows "LinearRegression_fit self X y = (Inl ValueError, initialize self (ncols X))"
    and "LogisticRegression_fit self X y = (Inl ValueError, initialize self (ncols X))"
proof -
  obtain k where k: "nat (max_iterations self) = Suc k"
    using assms(2) by (cases "nat (max_iterations self)") simp_all
  let ?s0 = "initialize self (ncols X)"
  have p: "coef ?s0 = Some (replicate (ncols X) 0)" "bias ?s0 = Some 0"
    "length (replicate (ncols X) (0::real)) = ncols X" "max_iterations ?s0 = max_iterations self"
    by (simp_all add: initialize_def)
  show "LinearRegression_fit self X y = (Inl ValueError, ?s0)"
    by (simp add: LinearRegression_fit_def Let_def p(4) k
        linear_iteration_mismatch [OF assms(1) p(1) p(2) p(3) assms(3) assms(4)])
  show "LogisticRegression_fit self X y = (Inl ValueError, ?s0)"
    by (simp add: LogisticRegression_fit_def Let_def p(4) k
        logistic_iteration_mismatch [OF assms(1) p(1) p(2) p(3) assms(3) assms(4)])
qed

subsection \<open>One gradient step does not increase the squared-error loss\<close>

lemma cauchy_schwarz_sum:
  fixes a b :: "nat \<Rightarrow> real"
  shows "(\<Sum>i\<in>S. a i * b i)\<^sup>2 \<le> (\<Sum>i\<in>S. (a i)\<^sup>2) * (\<Sum>i\<in>S. (b i)\<^sup>2)"
proof (cases "finite S")
  case False
  then show ?thesis by simp
next
  case fin: True
  define A where "A = (\<Sum>i\<in>S. (a i)\<^sup>2)"
  define B where "B = (\<Sum>i\<in>S. a i * b i)"
  define C where "C = (\<Sum>i\<in>S. (b i)\<^sup>2)"
  have C0: "0 \<le> C" unfolding C_def by (simp add: sum_nonneg)
  have "0 \<le> (\<Sum>i\<in>S. (C * a i - B * b i)\<^sup>2)"
    by (simp add: sum_nonneg)
  also have "(\<Sum>i\<in>S. (C * a i - B * b i)\<^sup>2)
      = (\<Sum>i\<in>S. C\<^sup>2 * (a i)\<^sup>2 - 2 * C * B * (a i * b i) + B\<^sup>2 * (b i)\<^sup>2)"
    by (rule sum.cong) (simp_all add: power2_eq_square algebra_simps)
  also have "\<dots> = C\<^sup>2 * A - 2 * C * B * B + B\<^sup>2 * C"
    by (simp add: sum.distrib sum_subtractf sum_distrib_left A_def B_def C_def)
  also have "\<dots> = C * (A * C - B\<^sup>2)"
    by (simp add: power2_eq_square algebra_simps)
  finally have key: "0 \<le> C * (A * C - B\<^sup>2)" .
  show ?thesis
  proof (cases "C = 0")
    case True
    then have "\<forall>i\<in>S. (b i)\<^sup>2 = 0"
      unfolding C_def using fin by (simp add: sum_nonneg_eq_0_iff)
    then have "B = 0" unfolding B_def by simp
    then show ?thesis using True unfolding A_def B_def C_def by simp
  next
    case False
    with C0 have "0 < C" by simp
    with key have "0 \<le> A * C - B\<^sup>2" by (simp add: zero_le_mult_iff)
    then show ?thesis unfolding A_def B_def C_def by simp
  qed
qed

lemma cauchy_schwarz_affine:
  fixes a s :: "nat \<Rightarrow> real"
  shows "((\<Sum>j = 0..<n. a j * s j) + t)\<^sup>2
         \<le> ((\<Sum>j = 0..<n. (a j)\<^sup>2) + 1) * ((\<Sum>j = 0..<n. (s j)\<^sup>2) + t\<^sup>2)"
  using cauchy_schwarz_sum [of "\<lambda>j. if j < n then a j else 1" "\<lambda>j. if j < n then s j else t" "{0..<Suc n}"]
  by simp

lemma gd_residual_decrease:
  fixes x :: "nat \<Rightarrow> nat \<Rightarrow> real" and r :: "nat \<Rightarrow> real" and m n :: nat and c :: real
  defines "s \<equiv> \<lambda>j. \<Sum>i = 0..<m. x i j * r i"
  defines "t \<equiv> \<Sum>i = 0..<m. r i"
  defines "q \<equiv> \<lambda>i. (\<Sum>j = 0..<n. x i j * s j) + t"
  defines "F \<equiv> \<Sum>i = 0..<m. ((\<Sum>j = 0..<n. (x i j)\<^sup>2) + 1)"
  assumes c0: "0 \<le> c" and cF: "c * F \<le> 2"
  shows "(\<Sum>i = 0..<m. (r i - c * q i)\<^sup>2) \<le> (\<Sum>i = 0..<m. (r i)\<^sup>2)"
proof -
  define G where "G = (\<Sum>j = 0..<n. (s j)\<^sup>2) + t\<^sup>2"
  have G0: "0 \<le> G" unfolding G_def by (simp add: sum_nonneg)
  have "(\<Sum>i = 0..<m. r i * (\<Sum>j = 0..<n. x i j * s j))
        = (\<Sum>i = 0..<m. \<Sum>j = 0..<n. s j * (x i j * r i))"
    by (simp add: sum_distrib_left mult_ac)
  also have "\<dots> = (\<Sum>j = 0..<n. \<Sum>i = 0..<m. s j * (x i j * r i))"
    by (rule sum.swap)
  also have "\<dots> = (\<Sum>j = 0..<n. (s j)\<^sup>2)"
    by (simp add: sum_distrib_left [symmetric] s_def power2_eq_square)
  finally have cross1: "(\<Sum>i = 0..<m. r i * (\<Sum>j = 0..<n. x i j * s j)) = (\<Sum>j = 0..<n. (s j)\<^sup>2)" .
  have cross: "(\<Sum>i = 0..<m. r i * q i) = G"
    unfolding q_def G_def
    by (simp add: distrib_left sum.distrib cross1 sum_distrib_right [symmetric]
          t_def [symmetric] power2_eq_square)
  have "(\<Sum>i = 0..<m. (q i)\<^sup>2) \<le> (\<Sum>i = 0..<m. ((\<Sum>j = 0..<n. (x i j)\<^sup>2) + 1) * G)"
    unfolding q_def G_def by (intro sum_mono cauchy_schwarz_affine)
  also have "\<dots> = F * G"
    by (simp add: F_def sum_distrib_right)
  finally have qq: "(\<Sum>i = 0..<m. (q i)\<^sup>2) \<le> F * G" .
  have "(\<Sum>i = 0..<m. (r i - c * q i)\<^sup>2)
        = (\<Sum>i = 0..<m. (r i)\<^sup>2 - 2 * c * (r i * q i) + c\<^sup>2 * (q i)\<^sup>2)"
    by (rule sum.cong) (simp_all add: power2_eq_square algebra_simps)
  also have "\<dots> = (\<Sum>i = 0..<m. (r i)\<^sup>2) - 2 * c * G + c\<^sup>2 * (\<Sum>i = 0..<m. (q i)\<^sup>2)"
    by (simp add: sum.distrib sum_subtractf sum_distrib_left [symmetric] cross)
  also have "\<dots> \<le> (\<Sum>i = 0..<m. (r i)\<^sup>2) - 2 * c * G + c\<^sup>2 * (F * G)"
    using qq by (simp add: mult_left_mono)
  also have "\<dots> = (\<Sum>i = 0..<m. (r i)\<^sup>2) - c * G * (2 - c * F)"
    by (simp add: power2_eq_square algebra_simps)
  also have "\<dots> \<le> (\<Sum>i = 0..<m. (r i)\<^sup>2)"
    using c0 G0 cF by simp
  finally show ?thesis .
qed

lemma lr_bound_denominator_pos:
  assumes "0 < nrows X"
  shows "0 < (\<Sum>i = 0..<nrows X. (\<Sum>j = 0..<ncols X. (rows X ! i ! j)\<^sup>2) + 1 :: real)"
proof -
  have "(0::real) < (\<Sum>i = 0..<nrows X. 1)" using assms by simp
  also have "\<dots> \<le> (\<Sum>i = 0..<nrows X. (\<Sum>j = 0..<ncols X. (rows X ! i ! j)\<^sup>2) + 1)"
    by (intro sum_mono) (simp add: sum_nonneg)
  finally show ?thesis .
qed

lemma lr_bound_pos: "0 < nrows X \<Longrightarrow> 0 < lr_bound X"
  unfolding lr_bound_def using lr_bound_denominator_pos [of X] by simp

lemma spec_linear_residual_update:
  fixes X :: mat and w y :: vec and b lr :: real
  assumes "i < nrows X"
  defines "r \<equiv> spec_residual (spec_scores X w b) y"
  shows "spec_residual
           (spec_scores X (fst (spec_linear_update lr X y (w, b))) (snd (spec_linear_update lr X y (w, b)))) y ! i
         = r ! i - lr / real (nrows X) *
             ((\<Sum>j = 0..<ncols X. rows X ! i ! j * (\<Sum>k = 0..<nrows X. rows X ! k ! j * r ! k))
              + (\<Sum>k = 0..<nrows X. r ! k))"
proof -
  let ?c = "lr / real (nrows X)"
  let ?s = "\<lambda>j. \<Sum>k = 0..<nrows X. rows X ! k ! j * r ! k"
  have w': "(\<Sum>j = 0..<ncols X. rows X ! i ! j * fst (spec_linear_update lr X y (w, b)) ! j)
        = (\<Sum>j = 0..<ncols X. rows X ! i ! j * w ! j - ?c * (rows X ! i ! j * ?s j))"
    by (rule sum.cong)
       (simp_all add: spec_linear_update_def spec_gd_update_def r_def algebra_simps)
  have b': "snd (spec_linear_update lr X y (w, b)) = b - ?c * (\<Sum>k = 0..<nrows X. r ! k)"
    by (simp add: spec_linear_update_def spec_gd_update_def r_def)
  have ri: "r ! i = (\<Sum>j = 0..<ncols X. rows X ! i ! j * w ! j) + b - y ! i"
    using assms(1) by (simp add: r_def spec_residual_def spec_scores_def)
  have "spec_residual
           (spec_scores X (fst (spec_linear_update lr X y (w, b))) (snd (spec_linear_update lr X y (w, b)))) y ! i
        = (\<Sum>j = 0..<ncols X. rows X ! i ! j * w ! j - ?c * (rows X ! i ! j * ?s j))
          + (b - ?c * (\<Sum>k = 0..<nrows X. r ! k)) - y ! i"
    using assms(1) by (simp add: spec_residual_def spec_scores_def w' b')
  also have "(\<Sum>j = 0..<ncols X. rows X ! i ! j * w ! j - ?c * (rows X ! i ! j * ?s j))
      = (\<Sum>j = 0..<ncols X. rows X ! i ! j * w ! j) - ?c * (\<Sum>j = 0..<ncols X. rows X ! i ! j * ?s j)"
    by (simp only: sum_subtractf sum_distrib_left)
  finally show ?thesis
    by (simp only: ri right_diff_distrib distrib_left)
qed

lemma spec_linear_loss_decreases:
  assumes "0 < nrows X" "0 \<le> lr" "lr \<le> lr_bound X"
  shows "spec_linear_loss X y (spec_linear_update lr X y (w, b)) \<le> spec_linear_loss X y (w, b)"
proof -
  define r where "r = (\<lambda>i. spec_residual (spec_scores X w b) y ! i)"
  define F where "F = (\<Sum>i = 0..<nrows X. (\<Sum>j = 0..<ncols X. (rows X ! i ! j)\<^sup>2) + 1 :: real)"
  let ?c = "lr / real (nrows X)"
  have Fpos: "0 < F" unfolding F_def using assms(1) by (rule lr_bound_denominator_pos)
  have c0: "0 \<le> ?c" using assms by simp
  have "lr * F \<le> 2 * real (nrows X)"
    using assms(3) Fpos by (simp add: lr_bound_def F_def [symmetric] pos_le_divide_eq)
  then have cF: "?c * F \<le> 2"
    using assms(1) by (simp add: pos_divide_le_eq mult.commute)
  have "(\<Sum>i = 0..<nrows X.
          (spec_residual (spec_scores X (fst (spec_linear_update lr X y (w, b)))
                            (snd (spec_linear_update lr X y (w, b)))) y ! i)\<^sup>2)
      = (\<Sum>i = 0..<nrows X.
          (r i - ?c * ((\<Sum>j = 0..<ncols X. rows X ! i ! j * (\<Sum>k = 0..<nrows X. rows X ! k ! j * r k))
                        + (\<Sum>k = 0..<nrows X. r k)))\<^sup>2)"
    by (rule sum.cong) (simp_all add: spec_linear_residual_update r_def)
  also have "\<dots> \<le> (\<Sum>i = 0..<nrows X. (r i)\<^sup>2)"
    using c0 cF unfolding F_def by (rule gd_residual_decrease)
  finally have "(\<Sum>i = 0..<nrows X.
          (spec_residual (spec_scores X (fst (spec_linear_update lr X y (w, b)))
                            (snd (spec_linear_update lr X y (w, b)))) y ! i)\<^sup>2)
      \<le> (\<Sum>i = 0..<nrows X. (spec_residual (spec_scores X w b) y ! i)\<^sup>2)"
    by (simp add: r_def)
  then show ?thesis
    using assms(1)
    by (simp add: spec_linear_loss_def split_beta divide_right_mono)
qed

lemma spec_linear_trace_nonincreasing:
  assumes "0 < nrows X" "0 \<le> lr" "lr \<le> lr_bound X"
  shows "spec_linear_loss X y ((spec_linear_update lr X y ^^ Suc i) wb)
         \<le> spec_linear_loss X y ((spec_linear_update lr X y ^^ i) wb)"
proof -
  obtain w b where "(spec_linear_update lr X y ^^ i) wb = (w, b)"
    by (cases "(spec_linear_update lr X y ^^ i) wb")
  then show ?thesis
    using spec_linear_loss_decreases [OF assms, of y w b] by simp
qed

section \<open>What exact arithmetic gives for the range of predict and for the loss trace\<close>

text \<open>
  The two results of this section are facts about the real-number model only. They are the
  exact-arithmetic content of the claims C8 and C9, and they do not settle those claims:
  both claims are about values the float64 program returns, and rounding decides them.
  Over the reals the entries of \<^verbatim>\<open>LogisticRegression.predict\<close> lie strictly between 0 and 1;
  the notebook's float64 sigmoid reaches exactly 1.0 and 0.0. Over the reals the loss trace
  of \<^verbatim>\<open>LinearRegression.fit\<close> never increases below the bound \<open>lr_bound X\<close>; in float64 an
  entry can exceed its predecessor by a rounding error once the trace has become flat.
\<close>

text \<open>
  In the model, after any call of \<^verbatim>\<open>LogisticRegression.fit\<close> that returned \<open>(ls, w, b)\<close>,
  \<^verbatim>\<open>predict\<close> on a well-shaped matrix with the trained column count returns the sigmoid of
  \<open>X\<cdot>w + b\<close>, a vector with one entry per row, each strictly between 0 and 1.
\<close>

lemma logistic_predict_fitted_exact:
  assumes "fst (LogisticRegression_fit self Xtrain ytrain) = Inr (ls, w, b)"
    and "wf_mat X" "0 < nrows X" "ncols X = ncols Xtrain"
  shows "LogisticRegression_predict (snd (LogisticRegression_fit self Xtrain ytrain)) X
           = Inr (map (\<lambda>z. 1 / (1 + exp (- z))) (spec_scores X w b))
       \<and> length (map (\<lambda>z. 1 / (1 + exp (- z))) (spec_scores X w b)) = nrows X
       \<and> (\<forall>p \<in> set (map (\<lambda>z. 1 / (1 + exp (- z))) (spec_scores X w b)). 0 < p \<and> p < 1)"
proof -
  from logistic_fit_params [OF assms(1)] have
    p: "coef (snd (LogisticRegression_fit self Xtrain ytrain)) = Some w"
       "bias (snd (LogisticRegression_fit self Xtrain ytrain)) = Some b"
       "length w = ncols X"
    using assms(4) by simp_all
  have "LogisticRegression_predict (snd (LogisticRegression_fit self Xtrain ytrain)) X
           = Inr (map (\<lambda>z. 1 / (1 + exp (- z))) (spec_scores X w b))"
    using logistic_predict_valid [OF assms(2) p] by (simp add: spec_logistic_predictions_def)
  moreover have "\<forall>p \<in> set (map (\<lambda>z. 1 / (1 + exp (- z))) (spec_scores X w b)). 0 < p \<and> p < 1"
    using sigmoid_range by auto
  ultimately show ?thesis by simp
qed

lemma logistic_predict_fitted_exact_example:
  "fst (LogisticRegression_fit (init 1 1) \<lparr>nrows = 1, ncols = 1, rows = [[1]]\<rparr> [1])
     = Inr ([ln 2], [1 / 2], 1 / 2)
   \<and> wf_mat \<lparr>nrows = 2, ncols = 1, rows = [[1], [- 1]]\<rparr>
   \<and> 0 < nrows \<lparr>nrows = 2, ncols = 1, rows = [[1], [- 1]]\<rparr>
   \<and> ncols \<lparr>nrows = 2, ncols = 1, rows = [[1], [- 1]]\<rparr> = ncols \<lparr>nrows = 1, ncols = 1, rows = [[1]]\<rparr>
   \<and> LogisticRegression_predict
         (snd (LogisticRegression_fit (init 1 1) \<lparr>nrows = 1, ncols = 1, rows = [[1]]\<rparr> [1]))
         \<lparr>nrows = 2, ncols = 1, rows = [[1], [- 1]]\<rparr>
       = Inr [1 / (1 + exp (- 1)), 1 / 2]
   \<and> 0 < 1 / (1 + exp (- 1 :: real)) \<and> 1 / (1 + exp (- 1 :: real)) < 1"
proof -
  have h: "wf_mat \<lparr>nrows = 2, ncols = 1, rows = [[1], [- 1]]\<rparr>"
    "0 < nrows \<lparr>nrows = 2, ncols = 1, rows = [[1], [- 1]]\<rparr>"
    "ncols \<lparr>nrows = 2, ncols = 1, rows = [[1], [- 1]]\<rparr> = ncols \<lparr>nrows = 1, ncols = 1, rows = [[1]]\<rparr>"
    by (simp_all add: wf_mat_def)
  from logistic_predict_fitted_exact [OF logistic_fit_example h] logistic_fit_example h show ?thesis
    by (simp add: spec_scores_def numeral_2_eq_2)
qed

text \<open>
  In the model, for every well-shaped design matrix with at least one row there is a positive
  bound on the learning rate, depending on the matrix only, below which the loss trace of
  \<^verbatim>\<open>LinearRegression.fit\<close> never increases from one entry to the next.
\<close>

lemma linear_loss_trace_nonincreasing_exact:
  assumes "wf_mat X" "0 < nrows X"
  shows "\<exists>B>0. \<forall>(y :: vec) self. length y = nrows X \<and> 0 < learning_rate self \<and> learning_rate self < B \<longrightarrow>
           (\<exists>ls w b. fst (LinearRegression_fit self X y) = Inr (ls, w, b)
              \<and> length ls = nat (max_iterations self)
              \<and> (\<forall>i. int i + 1 < max_iterations self \<longrightarrow> ls ! (i + 1) \<le> ls ! i))"
proof (rule exI [of _ "lr_bound X"], intro conjI allI impI)
  show "0 < lr_bound X" using assms(2) by (rule lr_bound_pos)
next
  fix y :: vec and self :: model
  assume h: "length y = nrows X \<and> 0 < learning_rate self \<and> learning_rate self < lr_bound X"
  let ?k = "nat (max_iterations self)"
  let ?z = "(replicate (ncols X) 0, 0 :: real)"
  let ?U = "spec_linear_update (learning_rate self) X y"
  let ?ls = "map (\<lambda>i. spec_linear_loss X y ((?U ^^ i) ?z)) [0..<?k]"
  have len: "length y = nrows X" using h by simp
  have lr: "0 \<le> learning_rate self" "learning_rate self \<le> lr_bound X" using h by simp_all
  have fit: "fst (LinearRegression_fit self X y) = Inr (?ls, fst ((?U ^^ ?k) ?z), snd ((?U ^^ ?k) ?z))"
    by (simp add: linear_fit_valid [OF assms(1) len assms(2)] spec_linear_step_funpow Let_def)
  have mono: "?ls ! (i + 1) \<le> ?ls ! i" if "int i + 1 < max_iterations self" for i
  proof -
    from that have "i + 1 < ?k" by linarith
    then have "?ls ! (i + 1) = spec_linear_loss X y ((?U ^^ Suc i) ?z)"
      and "?ls ! i = spec_linear_loss X y ((?U ^^ i) ?z)"
      by (simp_all del: funpow.simps)
    then show ?thesis
      using spec_linear_trace_nonincreasing [OF assms(2) lr, of y i ?z] by simp
  qed
  show "\<exists>ls w b. fst (LinearRegression_fit self X y) = Inr (ls, w, b)
              \<and> length ls = nat (max_iterations self)
              \<and> (\<forall>i. int i + 1 < max_iterations self \<longrightarrow> ls ! (i + 1) \<le> ls ! i)"
    unfolding fit
    by (rule exI [of _ ?ls], rule exI [of _ "fst ((?U ^^ ?k) ?z)"], rule exI [of _ "snd ((?U ^^ ?k) ?z)"])
       (use mono in simp)
qed

lemma linear_loss_trace_nonincreasing_exact_example:
  "wf_mat \<lparr>nrows = 2, ncols = 1, rows = [[1], [2]]\<rparr>
   \<and> 0 < nrows \<lparr>nrows = 2, ncols = 1, rows = [[1], [2]]\<rparr>
   \<and> (\<exists>B>0. \<exists>ls w b.
         length [0, 1 :: real] = nrows \<lparr>nrows = 2, ncols = 1, rows = [[1], [2]]\<rparr>
         \<and> 0 < learning_rate (init 3 (B / 2)) \<and> learning_rate (init 3 (B / 2)) < B
         \<and> fst (LinearRegression_fit (init 3 (B / 2)) \<lparr>nrows = 2, ncols = 1, rows = [[1], [2]]\<rparr> [0, 1])
             = Inr (ls, w, b)
         \<and> length ls = 3 \<and> ls ! 1 \<le> ls ! 0 \<and> ls ! 2 \<le> ls ! 1)"
proof -
  let ?X = "\<lparr>nrows = 2, ncols = 1, rows = [[1], [2]]\<rparr>"
  have h: "wf_mat ?X" "0 < nrows ?X" by (simp_all add: wf_mat_def)
  from linear_loss_trace_nonincreasing_exact [OF h] obtain B where B: "0 < B"
    and all: "\<And>y self. length y = nrows ?X \<and> 0 < learning_rate self \<and> learning_rate self < B \<Longrightarrow>
      (\<exists>ls w b. fst (LinearRegression_fit self ?X y) = Inr (ls, w, b)
              \<and> length ls = nat (max_iterations self)
              \<and> (\<forall>i. int i + 1 < max_iterations self \<longrightarrow> ls ! (i + 1) \<le> ls ! i))"
    by blast
  have pre: "length [0, 1 :: real] = nrows ?X \<and> 0 < learning_rate (init 3 (B / 2))
             \<and> learning_rate (init 3 (B / 2)) < B"
    using B by (simp add: init_def)
  from all [OF pre] obtain ls w b where
    r: "fst (LinearRegression_fit (init 3 (B / 2)) ?X [0, 1]) = Inr (ls, w, b)"
       "length ls = nat (max_iterations (init 3 (B / 2)))"
       "\<And>i. int i + 1 < max_iterations (init 3 (B / 2)) \<Longrightarrow> ls ! (i + 1) \<le> ls ! i"
    by blast
  have "length ls = 3" using r(2) by (simp add: init_def)
  moreover have "ls ! 1 \<le> ls ! 0" using r(3) [of 0] by (simp add: init_def)
  moreover have "ls ! 2 \<le> ls ! 1" using r(3) [of 1] by (simp add: init_def numeral_2_eq_2)
  ultimately show ?thesis using h B pre r(1) by blast
qed

section \<open>The claims\<close>

text \<open>
  C1. For a well-shaped \<open>m \<times> n\<close> design matrix with \<open>m \<ge> 1\<close> and a target vector of
  length \<open>m\<close>, \<^verbatim>\<open>LinearRegression.fit\<close> returns what \<open>max_iterations\<close> applications of the
  specification's iteration produce from the empty trace, the zero weight vector and bias
  0: each iteration computes the predictions \<open>X\<cdot>w + b\<close>, appends half the mean squared
  residual, and then subtracts \<open>(learning_rate / m) \<times> X\<^sup>T\<cdot>res\<close> from \<open>w\<close> and
  \<open>learning_rate \<times> mean res\<close> from \<open>b\<close>, both from the residual of the old parameters.
\<close>

theorem linear_fit_iterates_spec_step:
  assumes "wf_mat X" "0 < nrows X" "length y = nrows X"
  shows "fst (LinearRegression_fit self X y) =
         Inr ((spec_linear_step (learning_rate self) X y ^^ nat (max_iterations self))
                ([], replicate (ncols X) 0, 0))"
  using linear_fit_valid [OF assms(1) assms(3) assms(2), of self] by (simp add: Let_def)

theorem linear_fit_iterates_spec_step_witness:
  "wf_mat \<lparr>nrows = 2, ncols = 1, rows = [[1], [2]]\<rparr>
   \<and> 0 < nrows \<lparr>nrows = 2, ncols = 1, rows = [[1], [2]]\<rparr>
   \<and> length [1, 2 :: real] = nrows \<lparr>nrows = 2, ncols = 1, rows = [[1], [2]]\<rparr>
   \<and> fst (LinearRegression_fit (init 1 (1 / 10)) \<lparr>nrows = 2, ncols = 1, rows = [[1], [2]]\<rparr> [1, 2])
       = Inr ([5 / 4], [1 / 4], 3 / 20)"
  using linear_fit_iterates_spec_step
          [of "\<lparr>nrows = 2, ncols = 1, rows = [[1], [2]]\<rparr>" "[1, 2]" "init 1 (1 / 10)"]
  by (simp add: wf_mat_def init_def spec_linear_step_def spec_linear_loss_def
      spec_linear_update_def spec_gd_update_def spec_scores_def spec_residual_def
      numeral_2_eq_2 power2_eq_square)

text \<open>
  C2. On well-shaped inputs and for a non-negative \<open>max_iterations\<close>, \<^verbatim>\<open>fit\<close> of either
  trainer returns normally, its loss trace has exactly \<open>max_iterations\<close> entries, the
  returned weights and bias are the zero parameters updated exactly \<open>max_iterations\<close>
  times, and they are the parameters the object holds afterwards.
\<close>

theorem fit_runs_max_iterations:
  assumes "wf_mat X" "0 < nrows X" "length y = nrows X" "0 \<le> max_iterations self"
  shows "(\<exists>ls w b. LinearRegression_fit self X y = (Inr (ls, w, b), self\<lparr>coef := Some w, bias := Some b\<rparr>)
            \<and> int (length ls) = max_iterations self
            \<and> (w, b) = (spec_linear_update (learning_rate self) X y ^^ nat (max_iterations self))
                          (replicate (ncols X) 0, 0))
       \<and> (\<exists>ls w b. LogisticRegression_fit self X y = (Inr (ls, w, b), self\<lparr>coef := Some w, bias := Some b\<rparr>)
            \<and> int (length ls) = max_iterations self
            \<and> (w, b) = (spec_logistic_update (learning_rate self) X y ^^ nat (max_iterations self))
                          (replicate (ncols X) 0, 0))"
proof -
  let ?k = "nat (max_iterations self)"
  let ?z = "(replicate (ncols X) 0, 0 :: real)"
  let ?lin = "(spec_linear_update (learning_rate self) X y ^^ ?k) ?z"
  let ?log = "(spec_logistic_update (learning_rate self) X y ^^ ?k) ?z"
  let ?ls1 = "map (\<lambda>i. spec_linear_loss X y ((spec_linear_update (learning_rate self) X y ^^ i) ?z)) [0..<?k]"
  let ?ls2 = "map (\<lambda>i. spec_logistic_loss X y ((spec_logistic_update (learning_rate self) X y ^^ i) ?z)) [0..<?k]"
  have lin: "LinearRegression_fit self X y =
       (Inr (?ls1, fst ?lin, snd ?lin),
        self\<lparr>coef := Some (fst ?lin), bias := Some (snd ?lin)\<rparr>)"
    by (simp add: linear_fit_valid [OF assms(1) assms(3) assms(2)] spec_linear_step_funpow Let_def)
  have log: "LogisticRegression_fit self X y =
       (Inr (?ls2, fst ?log, snd ?log),
        self\<lparr>coef := Some (fst ?log), bias := Some (snd ?log)\<rparr>)"
    by (simp add: logistic_fit_valid [OF assms(1) assms(3) assms(2)] spec_logistic_step_funpow Let_def)
  show ?thesis
  proof (intro conjI)
    show "\<exists>ls w b. LinearRegression_fit self X y = (Inr (ls, w, b), self\<lparr>coef := Some w, bias := Some b\<rparr>)
            \<and> int (length ls) = max_iterations self
            \<and> (w, b) = ?lin"
      unfolding lin
      by (rule exI [of _ ?ls1], rule exI [of _ "fst ?lin"], rule exI [of _ "snd ?lin"])
         (use assms(4) in simp)
    show "\<exists>ls w b. LogisticRegression_fit self X y = (Inr (ls, w, b), self\<lparr>coef := Some w, bias := Some b\<rparr>)
            \<and> int (length ls) = max_iterations self
            \<and> (w, b) = ?log"
      unfolding log
      by (rule exI [of _ ?ls2], rule exI [of _ "fst ?log"], rule exI [of _ "snd ?log"])
         (use assms(4) in simp)
  qed
qed

theorem fit_runs_max_iterations_witness:
  "wf_mat \<lparr>nrows = 2, ncols = 1, rows = [[1], [2]]\<rparr>
   \<and> 0 < nrows \<lparr>nrows = 2, ncols = 1, rows = [[1], [2]]\<rparr>
   \<and> length [0, 1 :: real] = nrows \<lparr>nrows = 2, ncols = 1, rows = [[1], [2]]\<rparr>
   \<and> 0 \<le> max_iterations (init 3 (1 / 10))
   \<and> (\<exists>ls w b. LinearRegression_fit (init 3 (1 / 10)) \<lparr>nrows = 2, ncols = 1, rows = [[1], [2]]\<rparr> [0, 1]
          = (Inr (ls, w, b), (init 3 (1 / 10))\<lparr>coef := Some w, bias := Some b\<rparr>) \<and> length ls = 3)
   \<and> (\<exists>ls w b. LogisticRegression_fit (init 3 (1 / 10)) \<lparr>nrows = 2, ncols = 1, rows = [[1], [2]]\<rparr> [0, 1]
          = (Inr (ls, w, b), (init 3 (1 / 10))\<lparr>coef := Some w, bias := Some b\<rparr>) \<and> length ls = 3)"
proof -
  have h: "wf_mat \<lparr>nrows = 2, ncols = 1, rows = [[1], [2]]\<rparr>"
    "0 < nrows \<lparr>nrows = 2, ncols = 1, rows = [[1], [2]]\<rparr>"
    "length [0, 1 :: real] = nrows \<lparr>nrows = 2, ncols = 1, rows = [[1], [2]]\<rparr>"
    "0 \<le> max_iterations (init 3 (1 / 10))"
    by (simp_all add: wf_mat_def init_def)
  from fit_runs_max_iterations [OF h] h show ?thesis
    by (simp add: init_def) blast
qed

text \<open>
  C3. A trainer constructed with \<open>max_iterations = 0\<close> returns from \<^verbatim>\<open>fit\<close> the empty loss
  trace, the zero weight vector of length \<open>n\<close> and bias 0, and holds these parameters
  afterwards; this is so for both trainers and for every \<open>X\<close> and \<open>y\<close>.
\<close>

theorem fit_zero_iterations:
  "LinearRegression_fit (init 0 lr) X y =
     (Inr ([], replicate (ncols X) 0, 0),
      (init 0 lr)\<lparr>coef := Some (replicate (ncols X) 0), bias := Some 0\<rparr>)
   \<and> LogisticRegression_fit (init 0 lr) X y =
     (Inr ([], replicate (ncols X) 0, 0),
      (init 0 lr)\<lparr>coef := Some (replicate (ncols X) 0), bias := Some 0\<rparr>)"
  by (simp add: LinearRegression_fit_def LogisticRegression_fit_def Let_def initialize_def init_def)

text \<open>
  Counterexample to C4 as stated: shapes that disagree are not always rejected. A target vector of length 1 against a
  two-row design matrix is broadcast by \<^verbatim>\<open>preds - y\<close> and \<^verbatim>\<open>fit\<close> returns normally; and
  \<^verbatim>\<open>fit\<close> on an object already trained on one feature accepts a two-column matrix, since
  it re-initialises the parameters from the new shape.
\<close>

theorem shape_mismatch_not_always_rejected:
  "length [3 :: real] \<noteq> nrows \<lparr>nrows = 2, ncols = 1, rows = [[1], [2]]\<rparr>
   \<and> fst (LinearRegression_fit (init 1 1) \<lparr>nrows = 2, ncols = 1, rows = [[1], [2]]\<rparr> [3])
       = Inr ([9 / 2], [9 / 2], 3)
   \<and> coef (snd (LinearRegression_fit (init 1 1) \<lparr>nrows = 2, ncols = 1, rows = [[1], [2]]\<rparr> [3]))
       = Some [9 / 2]
   \<and> ncols \<lparr>nrows = 1, ncols = 2, rows = [[1, 1]]\<rparr> \<noteq> length [9 / 2 :: real]
   \<and> fst (LinearRegression_fit
            (snd (LinearRegression_fit (init 1 1) \<lparr>nrows = 2, ncols = 1, rows = [[1], [2]]\<rparr> [3]))
            \<lparr>nrows = 1, ncols = 2, rows = [[1, 1]]\<rparr> [1])
       = Inr ([1 / 2], [1, 1], 1)"
  by (simp add: LinearRegression_fit_def LinearRegression_iteration_def Let_def init_def
      initialize_def matvec_def broadcast2_def isub_def scale_mat_def transpose_mat_def
      dot_def mean_def square_def numeral_2_eq_2)

text \<open>
  C4, as the code has it. \<^verbatim>\<open>predict\<close> of either trainer raises ValueError when the column
  count of \<open>X\<close> differs from the length of the weight vector the object holds. \<^verbatim>\<open>fit\<close> of
  either trainer, with at least one iteration to run, raises ValueError when the length
  of \<open>y\<close> is neither the row count of \<open>X\<close> nor 1.
\<close>

theorem shape_mismatch_errors:
  "(coef self = Some w \<and> ncols X \<noteq> length w \<longrightarrow>
      LinearRegression_predict self X = Inl ValueError
      \<and> LogisticRegression_predict self X = Inl ValueError)
   \<and> (wf_mat X \<and> 0 < max_iterations self \<and> length y \<noteq> nrows X \<and> length y \<noteq> 1 \<longrightarrow>
      fst (LinearRegression_fit self X y) = Inl ValueError
      \<and> fst (LogisticRegression_fit self X y) = Inl ValueError)"
  using predict_mismatch [of self w X] fit_mismatch [of X self y] by simp

theorem shape_mismatch_errors_witness:
  "coef (initialize (init 1 1) 1) = Some [0]
   \<and> ncols \<lparr>nrows = 1, ncols = 2, rows = [[1, 1]]\<rparr> \<noteq> length [0 :: real]
   \<and> LinearRegression_predict (initialize (init 1 1) 1) \<lparr>nrows = 1, ncols = 2, rows = [[1, 1]]\<rparr>
       = Inl ValueError
   \<and> LogisticRegression_predict (initialize (init 1 1) 1) \<lparr>nrows = 1, ncols = 2, rows = [[1, 1]]\<rparr>
       = Inl ValueError
   \<and> wf_mat \<lparr>nrows = 1, ncols = 2, rows = [[1, 1]]\<rparr>
   \<and> 0 < max_iterations (initialize (init 1 1) 1)
   \<and> length [1, 2, 3 :: real] \<noteq> nrows \<lparr>nrows = 1, ncols = 2, rows = [[1, 1]]\<rparr>
   \<and> length [1, 2, 3 :: real] \<noteq> 1
   \<and> fst (LinearRegression_fit (initialize (init 1 1) 1) \<lparr>nrows = 1, ncols = 2, rows = [[1, 1]]\<rparr> [1, 2, 3])
       = Inl ValueError
   \<and> fst (LogisticRegression_fit (initialize (init 1 1) 1) \<lparr>nrows = 1, ncols = 2, rows = [[1, 1]]\<rparr> [1, 2, 3])
       = Inl ValueError"
  using shape_mismatch_errors [of "initialize (init 1 1) 1" "[0]"
          "\<lparr>nrows = 1, ncols = 2, rows = [[1, 1]]\<rparr>" "[1, 2, 3]"]
  by (simp add: init_def initialize_def wf_mat_def)

text \<open>
  Counterexample to C5 as stated. A \<^verbatim>\<open>fit\<close> that raises has already run \<^verbatim>\<open>initialize\<close>: the object holds zero parameters
  and a later \<^verbatim>\<open>predict\<close> returns predictions computed from them.
\<close>

theorem predict_after_failed_fit:
  "fst (LinearRegression_fit (init 1 1) \<lparr>nrows = 2, ncols = 1, rows = [[1], [2]]\<rparr> [1, 2, 3])
     = Inl ValueError
   \<and> LinearRegression_predict
        (snd (LinearRegression_fit (init 1 1) \<lparr>nrows = 2, ncols = 1, rows = [[1], [2]]\<rparr> [1, 2, 3]))
        \<lparr>nrows = 2, ncols = 1, rows = [[1], [2]]\<rparr>
     = Inr [0, 0]"
  by (simp add: LinearRegression_fit_def LinearRegression_iteration_def LinearRegression_predict_def
      Let_def init_def initialize_def matvec_def broadcast2_def dot_def)

text \<open>
  C5, as the code has it. \<^verbatim>\<open>__init__\<close> creates neither \<^verbatim>\<open>coef\<close> nor \<^verbatim>\<open>bias\<close>, and on every
  object that has no \<^verbatim>\<open>coef\<close> attribute, which is every object on which neither \<^verbatim>\<open>fit\<close> nor
  \<^verbatim>\<open>initialize\<close> has run, \<^verbatim>\<open>predict\<close> of either trainer raises AttributeError.
\<close>

theorem predict_before_fit:
  "coef (init mi lr) = None
   \<and> (coef self = None \<longrightarrow>
        LinearRegression_predict self X = Inl AttributeError
        \<and> LogisticRegression_predict self X = Inl AttributeError)"
  by (simp add: LinearRegression_predict_def LogisticRegression_predict_def init_def)

theorem predict_before_fit_witness:
  "coef (init 100 (1 / 10)) = None
   \<and> LinearRegression_predict (init 100 (1 / 10)) \<lparr>nrows = 2, ncols = 1, rows = [[1], [2]]\<rparr>
       = Inl AttributeError
   \<and> LogisticRegression_predict (init 100 (1 / 10)) \<lparr>nrows = 2, ncols = 1, rows = [[1], [2]]\<rparr>
       = Inl AttributeError"
  using predict_before_fit [of 100 "1 / 10" "init 100 (1 / 10)"
          "\<lparr>nrows = 2, ncols = 1, rows = [[1], [2]]\<rparr>"]
  by simp

text \<open>
  C7. From the same parameters, one pass of either loop body replaces the parameters by
  the same function \<open>spec_gd_update\<close> of the residual, namely
  \<open>w - (learning_rate / m) \<times> X\<^sup>T\<cdot>res\<close> and \<open>b - learning_rate \<times> mean res\<close>; the trainers differ
  only in the residual they pass, \<open>X\<cdot>w + b - y\<close> for the linear one and
  \<open>sigmoid (X\<cdot>w + b) - y\<close> for the logistic one.
\<close>

theorem gradient_update_same_form:
  assumes "wf_mat X" "0 < nrows X" "length y = nrows X"
    and "coef self = Some w" "bias self = Some b" "length w = ncols X"
  shows "(\<exists>loss. LinearRegression_iteration (nrows X) X y self =
            Inr (loss, self\<lparr>coef := Some (fst (spec_gd_update (learning_rate self) X
                                  (spec_residual (spec_scores X w b) y) (w, b))),
                           bias := Some (snd (spec_gd_update (learning_rate self) X
                                  (spec_residual (spec_scores X w b) y) (w, b)))\<rparr>))
       \<and> (\<exists>loss. LogisticRegression_iteration (nrows X) X y self =
            Inr (loss, self\<lparr>coef := Some (fst (spec_gd_update (learning_rate self) X
                                  (spec_residual (spec_logistic_predictions X w b) y) (w, b))),
                           bias := Some (snd (spec_gd_update (learning_rate self) X
                                  (spec_residual (spec_logistic_predictions X w b) y) (w, b)))\<rparr>))"
  using linear_iteration_valid [OF assms(1) assms(3) assms(2) assms(4) assms(5) assms(6)]
        logistic_iteration_valid [OF assms(1) assms(3) assms(2) assms(4) assms(5) assms(6)]
  by (simp add: spec_linear_update_def spec_logistic_update_def)

theorem gradient_update_same_form_witness:
  "wf_mat \<lparr>nrows = 2, ncols = 1, rows = [[1], [2]]\<rparr>
   \<and> 0 < nrows \<lparr>nrows = 2, ncols = 1, rows = [[1], [2]]\<rparr>
   \<and> length [0, 1 :: real] = nrows \<lparr>nrows = 2, ncols = 1, rows = [[1], [2]]\<rparr>
   \<and> coef (initialize (init 1 1) 1) = Some [0]
   \<and> bias (initialize (init 1 1) 1) = Some 0
   \<and> length [0 :: real] = ncols \<lparr>nrows = 2, ncols = 1, rows = [[1], [2]]\<rparr>
   \<and> (\<exists>loss. LinearRegression_iteration 2 \<lparr>nrows = 2, ncols = 1, rows = [[1], [2]]\<rparr> [0, 1]
                 (initialize (init 1 1) 1)
          = Inr (loss, (initialize (init 1 1) 1)\<lparr>coef := Some [1], bias := Some (1 / 2)\<rparr>))
   \<and> (\<exists>loss. LogisticRegression_iteration 2 \<lparr>nrows = 2, ncols = 1, rows = [[1], [2]]\<rparr> [0, 1]
                 (initialize (init 1 1) 1)
          = Inr (loss, (initialize (init 1 1) 1)\<lparr>coef := Some [1 / 4], bias := Some 0\<rparr>))"
proof -
  have h: "wf_mat \<lparr>nrows = 2, ncols = 1, rows = [[1], [2]]\<rparr>"
    "0 < nrows \<lparr>nrows = 2, ncols = 1, rows = [[1], [2]]\<rparr>"
    "length [0, 1 :: real] = nrows \<lparr>nrows = 2, ncols = 1, rows = [[1], [2]]\<rparr>"
    "coef (initialize (init 1 1) 1) = Some [0]"
    "bias (initialize (init 1 1) 1) = Some 0"
    "length [0 :: real] = ncols \<lparr>nrows = 2, ncols = 1, rows = [[1], [2]]\<rparr>"
    by (simp_all add: wf_mat_def init_def initialize_def)
  from gradient_update_same_form [OF h] h show ?thesis
    by (simp add: spec_gd_update_def spec_residual_def spec_scores_def
        spec_logistic_predictions_def numeral_2_eq_2 init_def initialize_def)
qed

text \<open>
  C10. On well-shaped inputs with at least one row and with at least one iteration to run,
  the first entry of the loss trace of \<^verbatim>\<open>LogisticRegression.fit\<close> is \<open>ln 2\<close>, whatever \<open>X\<close>
  and \<open>y\<close> are: at the zero initialisation every prediction is \<open>1 / 2\<close>.
\<close>

theorem logistic_first_loss_ln2:
  assumes "wf_mat X" "0 < nrows X" "length y = nrows X" "0 < max_iterations self"
  shows "\<exists>ls w b. fst (LogisticRegression_fit self X y) = Inr (ls, w, b) \<and> ls \<noteq> [] \<and> ls ! 0 = ln 2"
proof -
  obtain k where k: "nat (max_iterations self) = Suc k"
    using assms(4) by (cases "nat (max_iterations self)") simp_all
  let ?z = "(replicate (ncols X) 0, 0 :: real)"
  let ?U = "spec_logistic_update (learning_rate self) X y"
  let ?ls = "map (\<lambda>i. spec_logistic_loss X y ((?U ^^ i) ?z)) [0..<Suc k]"
  have fit: "fst (LogisticRegression_fit self X y) = Inr (?ls, fst ((?U ^^ Suc k) ?z), snd ((?U ^^ Suc k) ?z))"
    by (simp add: logistic_fit_valid [OF assms(1) assms(3) assms(2)] spec_logistic_step_funpow
        Let_def k del: upt_Suc funpow.simps)
  have "?ls ! 0 = spec_logistic_loss X y ?z"
    by (simp add: nth_map_upt del: upt_Suc)
  then have "?ls \<noteq> [] \<and> ?ls ! 0 = ln 2"
    using assms(2) by (simp add: spec_logistic_loss_zero del: upt_Suc)
  with fit show ?thesis by blast
qed

theorem logistic_first_loss_ln2_witness:
  "wf_mat \<lparr>nrows = 2, ncols = 1, rows = [[1], [2]]\<rparr>
   \<and> 0 < nrows \<lparr>nrows = 2, ncols = 1, rows = [[1], [2]]\<rparr>
   \<and> length [0, 1 :: real] = nrows \<lparr>nrows = 2, ncols = 1, rows = [[1], [2]]\<rparr>
   \<and> 0 < max_iterations (init 2 (1 / 10))
   \<and> (\<exists>ls w b. fst (LogisticRegression_fit (init 2 (1 / 10)) \<lparr>nrows = 2, ncols = 1, rows = [[1], [2]]\<rparr> [0, 1])
          = Inr (ls, w, b) \<and> ls \<noteq> [] \<and> ls ! 0 = ln 2)"
proof -
  have h: "wf_mat \<lparr>nrows = 2, ncols = 1, rows = [[1], [2]]\<rparr>"
    "0 < nrows \<lparr>nrows = 2, ncols = 1, rows = [[1], [2]]\<rparr>"
    "length [0, 1 :: real] = nrows \<lparr>nrows = 2, ncols = 1, rows = [[1], [2]]\<rparr>"
    "0 < max_iterations (init 2 (1 / 10))"
    by (simp_all add: wf_mat_def init_def)
  from logistic_first_loss_ln2 [OF h] h show ?thesis by blast
qed

end
